theory Spec2Isabelle
  imports Complex_Main
begin

section \<open>JSON values as the handler sees them\<close>

text \<open>
  The proxy of \<^verbatim>\<open>server.js\<close> stores and returns JavaScript values that came out of
  \<^verbatim>\<open>resp.json()\<close> or \<^verbatim>\<open>resp.text()\<close>. An object is an association list in property
  order. A number is kept as a rational: the code only ever asks whether it is zero.
  A \<open>char\<close> stands for one unit of a JavaScript string.
\<close>

datatype json =
    JNull
  | JBool bool
  | JNum rat
  | JStr string
  | JArr "json list"
  | JObj "(string \<times> json) list"

text \<open>JavaScript's \<^verbatim>\<open>if (v)\<close> on such a value (ToBoolean).\<close>

fun truthy :: "json \<Rightarrow> bool" where
  "truthy JNull = False"
| "truthy (JBool b) = b"
| "truthy (JNum n) = (n \<noteq> 0)"
| "truthy (JStr s) = (s \<noteq> [])"
| "truthy (JArr xs) = True"
| "truthy (JObj fs) = True"

text \<open>
  \<^verbatim>\<open>const cached = cache.get(key); if (cached) ...\<close>: the lookup gives \<^verbatim>\<open>undefined\<close>
  (here \<open>None\<close>) or a value, and the branch is taken for a truthy value only.
\<close>

definition if_truthy :: "json option \<Rightarrow> json option" where
  "if_truthy r = (case r of None \<Rightarrow> None | Some v \<Rightarrow> if truthy v then Some v else None)"

text \<open>Decimal text of an array index, as a property key.\<close>

fun show_nat :: "nat \<Rightarrow> string" where
  "show_nat n =
     (if n < 10 then [char_of (48 + n)]
      else show_nat (n div 10) @ [char_of (48 + n mod 10)])"

declare show_nat.simps [simp del]

text \<open>
  The own enumerable properties that an object spread \<^verbatim>\<open>{ ...v }\<close> copies: the fields
  of an object, the indexed elements of an array, the indexed units of a string, and
  nothing for a number, a boolean or \<^verbatim>\<open>null\<close>.
\<close>

fun spread :: "json \<Rightarrow> (string \<times> json) list" where
  "spread (JObj fs) = fs"
| "spread (JArr xs) = zip (map show_nat [0..<length xs]) xs"
| "spread (JStr s) = zip (map show_nat [0..<length s]) (map (\<lambda>c. JStr [c]) s)"
| "spread JNull = []"
| "spread (JBool b) = []"
| "spread (JNum n) = []"

text \<open>
  Defining a property in an object literal after a spread: an existing key keeps its
  place and gets the new value, a new key goes last.
\<close>

fun set_prop :: "string \<Rightarrow> json \<Rightarrow> (string \<times> json) list \<Rightarrow> (string \<times> json) list" where
  "set_prop k v [] = [(k, v)]"
| "set_prop k v (p # ps) = (if fst p = k then (k, v) # ps else p # set_prop k v ps)"

section \<open>Resource whitelist\<close>

definition allowed :: "string list" where
  "allowed =
    [''findCamerasAll'', ''findCamerasWithinBounds'', ''findCamerasByRegion'', ''findCamerasByJourney'',
     ''findRoadEventsAll'', ''findRoadEventsWithinBounds'', ''findRoadEventsByRegion'', ''findRoadEventsByJourney'',
     ''findVmsSignsAll'', ''findVmsSignsWithinBounds'', ''findVmsSignsByRegion'', ''findVmsSignsByJourney'',
     ''findTimSignsAll'', ''findTimSignsWithinBounds'', ''findTimSignsByRegion'', ''findTimSignsByJourney'',
     ''findRegionsAll'', ''findRegionsWithinBounds'',
     ''findWaysAll'', ''findWaysWithinBounds'',
     ''findJourneysAll'', ''findJourneysWithinBounds'']"

definition isSafeResource :: "string \<Rightarrow> bool" where
  "isSafeResource name = (name \<in> set allowed)"

section \<open>Query string serialisation\<close>

text \<open>
  \<^verbatim>\<open>req.query\<close> is the object the framework's query parser builds from the inbound
  query string; the parser is not part of the repository. The value of a key is a string,
  an array (a key given more than once) or a nested object (bracket syntax). The object is
  given by its properties in the order they were created, with distinct keys.
\<close>

datatype qvalue = QStr string | QArr "qvalue list" | QObj "(string \<times> qvalue) list"

text \<open>\<^verbatim>\<open>Array.prototype.join\<close>\<close>

fun join :: "string \<Rightarrow> string list \<Rightarrow> string" where
  "join sep [] = []"
| "join sep [x] = x"
| "join sep (x # y # ys) = x @ sep @ join sep (y # ys)"

text \<open>
  JavaScript's conversion of such a value to a string, which the constructor of
  \<^verbatim>\<open>URLSearchParams\<close> applies to every value of the object it is given: a string is
  itself, an array is its elements' strings joined by commas, an object is
  \<^verbatim>\<open>[object Object]\<close>.
\<close>

fun to_string :: "qvalue \<Rightarrow> string" where
  "to_string (QStr s) = s"
| "to_string (QArr vs) = join '','' (map to_string vs)"
| "to_string (QObj fs) = ''[object Object]''"

text \<open>
  A key is an array index when it is the canonical decimal text of an integer from 0 to
  \<open>2\<^sup>3\<^sup>2 - 2\<close>. JavaScript enumerates the own properties of an object with the array
  indices first, in ascending numeric order, and then the other keys in the order they
  were created.
\<close>

definition is_digit :: "char \<Rightarrow> bool" where
  "is_digit c = (c \<in> set ''0123456789'')"

definition decimal :: "string \<Rightarrow> nat" where
  "decimal k = foldl (\<lambda>a c. 10 * a + (of_char c - 48)) 0 k"

definition array_index :: "string \<Rightarrow> nat option" where
  "array_index k =
     (case k of
        [] \<Rightarrow> None
      | c # cs \<Rightarrow>
          if list_all is_digit k \<and> (if cs = [] then True else c \<noteq> CHR ''0'') \<and>
             decimal k < 4294967295
          then Some (decimal k) else None)"

definition index_of :: "string \<Rightarrow> nat" where
  "index_of k = (case array_index k of None \<Rightarrow> 0 | Some n \<Rightarrow> n)"

definition own_entries :: "(string \<times> 'a) list \<Rightarrow> (string \<times> 'a) list" where
  "own_entries ps =
     sort_key (\<lambda>p. index_of (fst p)) (filter (\<lambda>p. array_index (fst p) \<noteq> None) ps) @
     filter (\<lambda>p. array_index (fst p) = None) ps"

text \<open>
  \<^verbatim>\<open>new URLSearchParams(req.query)\<close>: the list of name and value strings made from the
  object, one pair per own property in enumeration order.
\<close>

definition URLSearchParams_of :: "(string \<times> qvalue) list \<Rightarrow> (string \<times> string) list" where
  "URLSearchParams_of q = map (\<lambda>p. (fst p, to_string (snd p))) (own_entries q)"



text \<open>
  \<^verbatim>\<open>.toString()\<close> of a \<^verbatim>\<open>URLSearchParams\<close> is the platform's
  \<^verbatim>\<open>application/x-www-form-urlencoded\<close> serialiser, which is not part of the
  repository; it is written out here after the URL standard, on the list of pairs the
  constructor made. A \<open>char\<close> is one byte of the UTF-8 text.
\<close>

definition unreserved :: "char \<Rightarrow> bool" where
  "unreserved c =
     (c \<in> set ''*-._0123456789ABCDEFGHIJKLMNOPQRSTUVWXYZabcdefghijklmnopqrstuvwxyz'')"

definition hex_digit :: "nat \<Rightarrow> char" where
  "hex_digit n = (if n < 10 then char_of (48 + n) else char_of (55 + n))"

definition encode_byte :: "char \<Rightarrow> string" where
  "encode_byte c =
     (if c = CHR '' '' then ''+''
      else if unreserved c then [c]
      else [CHR ''%'', hex_digit (of_char c div 16), hex_digit (of_char c mod 16)])"

definition urlencode :: "string \<Rightarrow> string" where
  "urlencode s = concat (map encode_byte s)"

text \<open>One \<^verbatim>\<open>name=value\<close> pair of the output.\<close>

definition pair_text :: "string \<Rightarrow> string \<Rightarrow> string" where
  "pair_text k v = urlencode k @ CHR ''='' # urlencode v"

fun URLSearchParams_toString :: "(string \<times> string) list \<Rightarrow> string" where
  "URLSearchParams_toString [] = []"
| "URLSearchParams_toString [(k, v)] = pair_text k v"
| "URLSearchParams_toString ((k, v) # p # ps) =
     pair_text k v @ CHR ''&'' # URLSearchParams_toString (p # ps)"

section \<open>Cache store\<close>

text \<open>
  Modelled from the spec: the cache store is the \<^verbatim>\<open>node-cache\<close> package, which is not
  under the sources. Section 4.2 of the specification gives its contract: \<open>get\<close>
  returns the value only if present and not expired, \<open>set\<close> inserts or overwrites and
  restarts the expiry clock at now plus the time to live. An entry is the tuple of the
  data model: value, insertion time (milliseconds) and time to live (seconds).
\<close>

record entry =
  e_value :: json
  e_inserted :: nat
  e_ttl :: nat

type_synonym cache = "string \<rightharpoonup> entry"

definition cache_get :: "cache \<Rightarrow> nat \<Rightarrow> string \<Rightarrow> json option" where
  "cache_get c now k =
     (case c k of
        None \<Rightarrow> None
      | Some e \<Rightarrow> if now < e_inserted e + 1000 * e_ttl e then Some (e_value e) else None)"

definition cache_set :: "cache \<Rightarrow> nat \<Rightarrow> string \<Rightarrow> json \<Rightarrow> nat \<Rightarrow> cache" where
  "cache_set c now k v ttl = c(k \<mapsto> \<lparr>e_value = v, e_inserted = now, e_ttl = ttl\<rparr>)"

section \<open>The upstream fetch job\<close>

text \<open>
  What \<^verbatim>\<open>await fetch(target, { signal, ... })\<close> settles to: a response, or a rejection.
  The rejection named \<open>AbortError\<close> is the one the timeout timer causes through the
  abort signal; \<open>TypeError\<close> is the transport failure of \<^verbatim>\<open>fetch\<close>; \<open>SyntaxError\<close>
  is what \<^verbatim>\<open>resp.json()\<close> throws on text that is not JSON. The body of a response is
  read afterwards and that read can fail as well (\<open>None\<close>).
\<close>

datatype js_error = AbortError | TypeError | SyntaxError

record upstream_resp =
  resp_status :: nat
  content_type :: "string option"
  resp_body :: "string option"

datatype settled = Fulfilled upstream_resp | Rejected js_error

text \<open>
  The timer of \<^verbatim>\<open>timeoutSignal\<close>: pending after \<^verbatim>\<open>setTimeout\<close>, cleared by
  \<^verbatim>\<open>cancel()\<close>, or fired (it has aborted the controller and is gone).
\<close>

datatype timer_state = Pending | Cleared | Fired

record result =
  error :: bool
  status :: nat
  data :: json

definition ok :: "upstream_resp \<Rightarrow> bool" where
  "ok resp = (200 \<le> resp_status resp \<and> resp_status resp \<le> 299)"

text \<open>\<^verbatim>\<open>s.includes(p)\<close>: \<open>p\<close> occurs in \<open>s\<close> as a contiguous substring.\<close>

fun str_includes :: "string \<Rightarrow> string \<Rightarrow> bool" where
  "str_includes [] p = (p = [])"
| "str_includes (c # cs) p = (take (length p) (c # cs) = p \<or> str_includes cs p)"

definition resp_text :: "upstream_resp \<Rightarrow> js_error + json" where
  "resp_text resp = (case resp_body resp of None \<Rightarrow> Inl TypeError | Some t \<Rightarrow> Inr (JStr t))"

text \<open>\<^verbatim>\<open>JSON.parse\<close> is a parameter: \<open>None\<close> where it throws.\<close>

definition resp_json :: "(string \<Rightarrow> json option) \<Rightarrow> upstream_resp \<Rightarrow> js_error + json" where
  "resp_json parse resp =
     (case resp_body resp of
        None \<Rightarrow> Inl TypeError
      | Some t \<Rightarrow> (case parse t of None \<Rightarrow> Inl SyntaxError | Some j \<Rightarrow> Inr j))"

text \<open>\<^verbatim>\<open>resp.headers.get('content-type') || ''\<close> and the test on it.\<close>

definition isJson :: "upstream_resp \<Rightarrow> bool" where
  "isJson resp =
     str_includes (case content_type resp of None \<Rightarrow> [] | Some h \<Rightarrow> h) ''application/json''"

text \<open>\<^verbatim>\<open>typeof data === 'string' ? { raw: data } : data\<close>\<close>

fun normalized :: "json \<Rightarrow> json" where
  "normalized (JStr s) = JObj [(''raw'', JStr s)]"
| "normalized d = d"

text \<open>\<^verbatim>\<open>const data = isJson ? await resp.json() : await resp.text()\<close>\<close>

definition read_data :: "(string \<Rightarrow> json option) \<Rightarrow> upstream_resp \<Rightarrow> js_error + json" where
  "read_data parse resp = (if isJson resp then resp_json parse resp else resp_text resp)"

text \<open>
  The body of the function handed to \<^verbatim>\<open>limit\<close>, from the settled fetch on: the job's
  result or the exception it throws, and the state the timer is left in. A rejected
  fetch throws before \<^verbatim>\<open>cancel()\<close> is reached: the timer has fired when the
  rejection is the abort it caused, and is still pending otherwise.
\<close>

definition job :: "(string \<Rightarrow> json option) \<Rightarrow> settled \<Rightarrow> (js_error + result) \<times> timer_state" where
  "job parse s =
     (case s of
        Rejected e \<Rightarrow> (Inl e, if e = AbortError then Fired else Pending)
      | Fulfilled resp \<Rightarrow>
          (if \<not> ok resp then
             (case resp_text resp of
                Inl e \<Rightarrow> Inl e
              | Inr t \<Rightarrow> Inr \<lparr>error = True, status = resp_status resp, data = t\<rparr>)
           else
             (case read_data parse resp of
                Inl e \<Rightarrow> Inl e
              | Inr d \<Rightarrow> Inr \<lparr>error = False, status = resp_status resp, data = normalized d\<rparr>),
           Cleared))"

section \<open>The request handler\<close>

record config =
  NZTABASE :: string
  CACHETTL :: nat
  REQUESTTIMEOUTMS :: nat

record request =
  resource :: string
  query :: "(string \<times> qvalue) list"

record response =
  res_status :: nat
  x_cache :: "string option"
  body :: json

text \<open>
  What one run of the handler leaves behind: the response sent, the cache store, the
  upstream URLs fetched, and the timeout timer if one was created.
\<close>

record outcome =
  sent :: response
  store :: cache
  calls :: "string list"
  timer :: "timer_state option"

definition qs_of :: "request \<Rightarrow> string" where
  "qs_of req = URLSearchParams_toString (URLSearchParams_of (query req))"

definition target_of :: "config \<Rightarrow> request \<Rightarrow> string" where
  "target_of cfg req =
     NZTABASE cfg @ ''/'' @ resource req @ (if qs_of req \<noteq> [] then ''?'' @ qs_of req else [])"

definition cache_key :: "string \<Rightarrow> (string \<times> qvalue) list \<Rightarrow> string" where
  "cache_key r q = ''traffic:'' @ r @ '':'' @ URLSearchParams_toString (URLSearchParams_of q)"

definition key_of :: "request \<Rightarrow> string" where
  "key_of req = cache_key (resource req) (query req)"

definition stale_body :: "json \<Rightarrow> json" where
  "stale_body stale =
     JObj (set_prop ''meta''
       (JObj [(''warning'', JStr ''Upstream error, served stale cache'')]) (spread stale))"

text \<open>The handler after \<^verbatim>\<open>await job\<close>, at the time \<open>now\<close> the job settled.\<close>

definition after_job ::
  "config \<Rightarrow> cache \<Rightarrow> nat \<Rightarrow> string \<Rightarrow> (js_error + result) \<Rightarrow> response \<times> cache" where
  "after_job cfg c now key r =
     (case r of
        Inl err \<Rightarrow>
          (\<lparr>res_status = 504, x_cache = None,
            body = JObj [(''error'',
              JStr (if err = AbortError then ''Upstream timeout'' else ''Proxy error''))]\<rparr>, c)
      | Inr res \<Rightarrow>
          if error res then
            (case if_truthy (cache_get c now (key @ '':stale'')) of
               Some stale \<Rightarrow>
                 (\<lparr>res_status = 200, x_cache = Some ''STALE'', body = stale_body stale\<rparr>, c)
             | None \<Rightarrow>
                 (\<lparr>res_status = (if status res = 0 then 502 else status res), x_cache = None,
                   body = JObj [(''error'', JStr ''Upstream error''), (''detail'', data res)]\<rparr>, c))
          else
            (\<lparr>res_status = 200, x_cache = Some ''MISS'', body = data res\<rparr>,
             cache_set (cache_set c now key (data res) (CACHETTL cfg))
               now (key @ '':stale'') (data res) (CACHETTL cfg * 10)))"

text \<open>
  \<^verbatim>\<open>app.get('/api/traffic/:resource', ...)\<close>. The upstream is a function from the
  target URL to what the fetch settles to and the milliseconds until the job has
  settled (queueing in the limiter included); \<open>now\<close> is the time the request arrives.
\<close>

definition handler ::
  "config \<Rightarrow> (string \<Rightarrow> json option) \<Rightarrow> (string \<Rightarrow> settled \<times> nat) \<Rightarrow> cache \<Rightarrow> nat \<Rightarrow> request
     \<Rightarrow> outcome" where
  "handler cfg parse upstream c now req =
     (if \<not> isSafeResource (resource req) then
        \<lparr>sent = \<lparr>res_status = 400, x_cache = None,
                 body = JObj [(''error'', JStr ''Unsupported resource'')]\<rparr>,
         store = c, calls = [], timer = None\<rparr>
      else
        (case if_truthy (cache_get c now (key_of req)) of
           Some cached \<Rightarrow>
             \<lparr>sent = \<lparr>res_status = 200, x_cache = Some ''HIT'', body = cached\<rparr>,
              store = c, calls = [], timer = None\<rparr>
         | None \<Rightarrow>
             (let (s, dt) = upstream (target_of cfg req);
                  (r, tm) = job parse s;
                  (res, c') = after_job cfg c (now + dt) (key_of req) r
              in \<lparr>sent = res, store = c', calls = [target_of cfg req], timer = Some tm\<rparr>)))"

section \<open>Sample inputs\<close>

text \<open>The configuration with the defaults of \<^verbatim>\<open>server.js\<close>.\<close>

definition default_config :: config where
  "default_config =
     \<lparr>NZTABASE = ''https://trafficnz.info/service/traffic/rest/4'',
      CACHETTL = 30, REQUESTTIMEOUTMS = 8000\<rparr>"

text \<open>\<^verbatim>\<open>JSON.parse\<close> on the three texts the examples use; it throws on any other.\<close>

definition sample_parse :: "string \<Rightarrow> json option" where
  "sample_parse t =
     (if t = ''null'' then Some JNull
      else if t = ''0'' then Some (JNum 0)
      else if t = ''[1]'' then Some (JArr [JNum 1])
      else None)"

definition regions_request :: request where
  "regions_request = \<lparr>resource = ''findRegionsAll'', query = []\<rparr>"

text \<open>
  Upstreams for the examples: each answers every URL the same way, with the milliseconds
  the job takes to settle.
\<close>

definition upstream_json :: "string \<Rightarrow> settled \<times> nat" where
  "upstream_json u =
     (Fulfilled \<lparr>resp_status = 200, content_type = Some ''application/json; charset=utf-8'',
                 resp_body = Some ''[1]''\<rparr>, 120)"

definition upstream_text :: "string \<Rightarrow> settled \<times> nat" where
  "upstream_text u =
     (Fulfilled \<lparr>resp_status = 200, content_type = Some ''text/plain'',
                 resp_body = Some ''hello''\<rparr>, 120)"

definition upstream_null :: "string \<Rightarrow> settled \<times> nat" where
  "upstream_null u =
     (Fulfilled \<lparr>resp_status = 200, content_type = Some ''application/json'',
                 resp_body = Some ''null''\<rparr>, 120)"

definition upstream_500 :: "string \<Rightarrow> settled \<times> nat" where
  "upstream_500 u =
     (Fulfilled \<lparr>resp_status = 500, content_type = Some ''text/html'',
                 resp_body = Some ''oops''\<rparr>, 120)"

definition upstream_timeout :: "string \<Rightarrow> settled \<times> nat" where
  "upstream_timeout u = (Rejected AbortError, 8000)"

definition upstream_refused :: "string \<Rightarrow> settled \<times> nat" where
  "upstream_refused u = (Rejected TypeError, 15)"

text \<open>A store that holds nothing but a stale entry for \<open>regions_request\<close>.\<close>

definition stale_only :: cache where
  "stale_only =
     [''traffic:findRegionsAll::stale'' \<mapsto>
        \<lparr>e_value = JObj [(''foo'', JNum 1)], e_inserted = 0, e_ttl = 300\<rparr>]"

text \<open>
  The store that a fetch of the JSON body \<^verbatim>\<open>null\<close> for \<open>regions_request\<close> at time 1000
  leaves behind: both tiers hold \<^verbatim>\<open>null\<close>.
\<close>

definition null_store :: cache where
  "null_store =
     [''traffic:findRegionsAll:'' \<mapsto> \<lparr>e_value = JNull, e_inserted = 1120, e_ttl = 30\<rparr>,
      ''traffic:findRegionsAll::stale'' \<mapsto>
        \<lparr>e_value = JNull, e_inserted = 1120, e_ttl = 300\<rparr>]"

section \<open>The serialiser is injective\<close>




















section \<open>Cache keys\<close>


lemma array_index_letters: "array_index ''a'' = None" "array_index ''b'' = None"
  by (simp_all add: array_index_def is_digit_def)






text \<open>
  Two behaviours of the key on query objects that are not plain. A key that is an array
  index is enumerated first wherever it was supplied, so \<^verbatim>\<open>?b=2&1=x\<close> and
  \<^verbatim>\<open>?1=x&b=2\<close> give one key. A repeated key makes an array, whose string is its
  elements joined by commas, so \<^verbatim>\<open>?a=1&a=2\<close> and \<^verbatim>\<open>?a=1%2C2\<close> give one key.
\<close>

lemma index_keys_come_first:
  "cache_key r [(''b'', QStr ''2''), (''1'', QStr ''x'')] =
   cache_key r [(''1'', QStr ''x''), (''b'', QStr ''2'')]"
proof -
  have "array_index ''1'' = Some 1" "array_index ''b'' = None"
    by (simp_all add: array_index_def is_digit_def decimal_def)
  then have "own_entries [(''b'', QStr ''2''), (''1'', QStr ''x'')] =
      own_entries [(''1'', QStr ''x''), (''b'', QStr ''2'')]"
    by (simp add: own_entries_def)
  then show ?thesis by (simp add: cache_key_def URLSearchParams_of_def)
qed

lemma array_is_joined_by_commas:
  "cache_key r [(''a'', QArr [QStr ''1'', QStr ''2''])] = cache_key r [(''a'', QStr ''1,2'')]"
  by (simp add: cache_key_def URLSearchParams_of_def own_entries_def array_index_letters)




section \<open>The paths of the handler\<close>

lemma handler_hit:
  assumes "isSafeResource (resource req)"
    and "if_truthy (cache_get c now (key_of req)) = Some v"
  shows "handler cfg parse upstream c now req =
     \<lparr>sent = \<lparr>res_status = 200, x_cache = Some ''HIT'', body = v\<rparr>,
      store = c, calls = [], timer = None\<rparr>"
  using assms by (simp add: handler_def)

lemma handler_miss:
  assumes "isSafeResource (resource req)"
    and "if_truthy (cache_get c now (key_of req)) = None"
    and "upstream (target_of cfg req) = (s, dt)"
  shows "handler cfg parse upstream c now req =
     \<lparr>sent = fst (after_job cfg c (now + dt) (key_of req) (fst (job parse s))),
      store = snd (after_job cfg c (now + dt) (key_of req) (fst (job parse s))),
      calls = [target_of cfg req],
      timer = Some (snd (job parse s))\<rparr>"
  using assms by (simp add: handler_def split: prod.splits)

lemma job_rejected:
  "job parse (Rejected e) = (Inl e, if e = AbortError then Fired else Pending)"
  by (simp add: job_def)

lemma job_upstream_error:
  assumes "\<not> ok resp" and "resp_body resp = Some t"
  shows "job parse (Fulfilled resp) =
     (Inr \<lparr>error = True, status = resp_status resp, data = JStr t\<rparr>, Cleared)"
  using assms by (simp add: job_def resp_text_def)

lemma job_success:
  assumes "ok resp" and "read_data parse resp = Inr d"
  shows "job parse (Fulfilled resp) =
     (Inr \<lparr>error = False, status = resp_status resp, data = normalized d\<rparr>, Cleared)"
  using assms by (simp add: job_def)

lemma job_throws:
  assumes "ok resp" and "read_data parse resp = Inl e"
  shows "job parse (Fulfilled resp) = (Inl e, Cleared)"
  using assms by (simp add: job_def)

lemma after_job_thrown:
  "after_job cfg c now key (Inl err) =
     (\<lparr>res_status = 504, x_cache = None,
       body = JObj [(''error'',
         JStr (if err = AbortError then ''Upstream timeout'' else ''Proxy error''))]\<rparr>, c)"
  by (simp add: after_job_def)

lemma after_job_stale:
  assumes "error res" and "cache_get c now (key @ '':stale'') = Some s" and "truthy s"
  shows "after_job cfg c now key (Inr res) =
     (\<lparr>res_status = 200, x_cache = Some ''STALE'', body = stale_body s\<rparr>, c)"
  using assms by (simp add: after_job_def if_truthy_def)

lemma after_job_no_stale:
  assumes "error res" and "cache_get c now (key @ '':stale'') = None"
  shows "after_job cfg c now key (Inr res) =
     (\<lparr>res_status = (if status res = 0 then 502 else status res), x_cache = None,
       body = JObj [(''error'', JStr ''Upstream error''), (''detail'', data res)]\<rparr>, c)"
  using assms by (simp add: after_job_def if_truthy_def)

lemma after_job_success:
  assumes "\<not> error res"
  shows "after_job cfg c now key (Inr res) =
     (\<lparr>res_status = 200, x_cache = Some ''MISS'', body = data res\<rparr>,
      c(key \<mapsto> \<lparr>e_value = data res, e_inserted = now, e_ttl = CACHETTL cfg\<rparr>,
        key @ '':stale'' \<mapsto> \<lparr>e_value = data res, e_inserted = now, e_ttl = CACHETTL cfg * 10\<rparr>))"
  using assms by (simp add: after_job_def cache_set_def)

lemma calls_at_most_one: "length (calls (handler cfg parse upstream c now req)) \<le> 1"
  by (simp add: handler_def split: option.splits prod.splits)

lemma safe_regions: "isSafeResource (resource regions_request)"
  by (simp add: regions_request_def isSafeResource_def allowed_def)

lemma key_regions: "key_of regions_request = ''traffic:findRegionsAll:''"
  by (simp add: key_of_def regions_request_def cache_key_def URLSearchParams_of_def
      own_entries_def)

lemma target_regions:
  "target_of default_config regions_request =
     ''https://trafficnz.info/service/traffic/rest/4/findRegionsAll''"
  by (simp add: target_of_def qs_of_def regions_request_def default_config_def
      URLSearchParams_of_def own_entries_def)

lemma empty_cache_miss: "if_truthy (cache_get Map.empty now k) = None"
  by (simp add: if_truthy_def cache_get_def)

text \<open>
  Claim C2. For a resource name that is not in the whitelist the handler answers 400 with
  the body \<^verbatim>\<open>{error: "Unsupported resource"}\<close>, fetches nothing from the upstream, creates no
  timer and leaves the cache store as it was.
\<close>

theorem unsupported_resource:
  assumes "\<not> isSafeResource (resource req)"
  shows "handler cfg parse upstream c now req =
     \<lparr>sent = \<lparr>res_status = 400, x_cache = None,
              body = JObj [(''error'', JStr ''Unsupported resource'')]\<rparr>,
      store = c, calls = [], timer = None\<rparr>"
  using assms by (simp add: handler_def)

text \<open>The resource \<^verbatim>\<open>deleteCameras\<close> is not whitelisted and gets the 400.\<close>

theorem unsupported_resource_witness:
  "\<not> isSafeResource (resource \<lparr>resource = ''deleteCameras'', query = [(''id'', QStr ''1'')]\<rparr>) \<and>
   sent (handler default_config sample_parse (\<lambda>u. (Rejected TypeError, 0)) Map.empty 0
      \<lparr>resource = ''deleteCameras'', query = [(''id'', QStr ''1'')]\<rparr>) =
     \<lparr>res_status = 400, x_cache = None, body = JObj [(''error'', JStr ''Unsupported resource'')]\<rparr> \<and>
   calls (handler default_config sample_parse (\<lambda>u. (Rejected TypeError, 0)) Map.empty 0
      \<lparr>resource = ''deleteCameras'', query = [(''id'', QStr ''1'')]\<rparr>) = []"
proof -
  have h: "\<not> isSafeResource (resource \<lparr>resource = ''deleteCameras'', query = [(''id'', QStr ''1'')]\<rparr>)"
    by (simp add: isSafeResource_def allowed_def)
  show ?thesis
    using h unsupported_resource [OF h, of default_config sample_parse
        "\<lambda>u. (Rejected TypeError, 0)" Map.empty 0]
    by simp
qed

text \<open>
  Claim C5. When a whitelisted request misses the fresh tier and the upstream answers 2xx
  with a body that is read (and parsed, when it is declared JSON), the normalized body is
  written under the key and under the key with \<^verbatim>\<open>:stale\<close> appended, at the time the job
  settled; the stale entry's time to live is 10 times the fresh one's, which is
  \<^verbatim>\<open>CACHETTL\<close>; nothing else in the store changes; and the response is 200 with
  \<^verbatim>\<open>X-Cache: MISS\<close> and the normalized body.
\<close>

theorem successful_fetch_writes_both_tiers:
  assumes "isSafeResource (resource req)"
    and "if_truthy (cache_get c now (key_of req)) = None"
    and "upstream (target_of cfg req) = (Fulfilled resp, dt)"
    and "ok resp"
    and "read_data parse resp = Inr d"
  shows "sent (handler cfg parse upstream c now req) =
           \<lparr>res_status = 200, x_cache = Some ''MISS'', body = normalized d\<rparr> \<and>
         store (handler cfg parse upstream c now req) (key_of req) =
           Some \<lparr>e_value = normalized d, e_inserted = now + dt, e_ttl = CACHETTL cfg\<rparr> \<and>
         store (handler cfg parse upstream c now req) (key_of req @ '':stale'') =
           Some \<lparr>e_value = normalized d, e_inserted = now + dt, e_ttl = 10 * CACHETTL cfg\<rparr> \<and>
         store (handler cfg parse upstream c now req) =
           c(key_of req \<mapsto> \<lparr>e_value = normalized d, e_inserted = now + dt, e_ttl = CACHETTL cfg\<rparr>,
             key_of req @ '':stale'' \<mapsto>
               \<lparr>e_value = normalized d, e_inserted = now + dt, e_ttl = 10 * CACHETTL cfg\<rparr>)"
proof -
  have j: "fst (job parse (Fulfilled resp)) =
      Inr \<lparr>error = False, status = resp_status resp, data = normalized d\<rparr>"
    using job_success [OF assms(4,5)] by simp
  show ?thesis
    unfolding handler_miss [where upstream = upstream and parse = parse, OF assms(1,2,3)] j
    by (simp add: after_job_success mult.commute)
qed

lemma isJson_sample:
  "isJson \<lparr>resp_status = 200, content_type = Some ''application/json; charset=utf-8'', resp_body = b\<rparr>"
  "isJson \<lparr>resp_status = 200, content_type = Some ''application/json'', resp_body = b\<rparr>"
  "\<not> isJson \<lparr>resp_status = 200, content_type = Some ''text/plain'', resp_body = b\<rparr>"
  by (simp_all add: isJson_def)

text \<open>A JSON answer \<^verbatim>\<open>[1]\<close> with the default configuration: 30 and 300 seconds.\<close>

theorem successful_fetch_writes_both_tiers_witness:
  "isSafeResource (resource regions_request) \<and>
   if_truthy (cache_get Map.empty 1000 (key_of regions_request)) = None \<and>
   upstream_json (target_of default_config regions_request) =
     (Fulfilled \<lparr>resp_status = 200, content_type = Some ''application/json; charset=utf-8'',
                 resp_body = Some ''[1]''\<rparr>, 120) \<and>
   ok \<lparr>resp_status = 200, content_type = Some ''application/json; charset=utf-8'',
       resp_body = Some ''[1]''\<rparr> \<and>
   read_data sample_parse \<lparr>resp_status = 200, content_type = Some ''application/json; charset=utf-8'',
       resp_body = Some ''[1]''\<rparr> = Inr (JArr [JNum 1]) \<and>
   sent (handler default_config sample_parse upstream_json Map.empty 1000 regions_request) =
     \<lparr>res_status = 200, x_cache = Some ''MISS'', body = JArr [JNum 1]\<rparr> \<and>
   store (handler default_config sample_parse upstream_json Map.empty 1000 regions_request)
       ''traffic:findRegionsAll:'' =
     Some \<lparr>e_value = JArr [JNum 1], e_inserted = 1120, e_ttl = 30\<rparr> \<and>
   store (handler default_config sample_parse upstream_json Map.empty 1000 regions_request)
       ''traffic:findRegionsAll::stale'' =
     Some \<lparr>e_value = JArr [JNum 1], e_inserted = 1120, e_ttl = 300\<rparr>"
proof -
  let ?resp = "\<lparr>resp_status = 200, content_type = Some ''application/json; charset=utf-8'',
       resp_body = Some ''[1]''\<rparr>"
  have h1: "isSafeResource (resource regions_request)" by (rule safe_regions)
  have h2: "if_truthy (cache_get Map.empty 1000 (key_of regions_request)) = None"
    by (rule empty_cache_miss)
  have h3: "upstream_json (target_of default_config regions_request) = (Fulfilled ?resp, 120)"
    by (simp add: upstream_json_def)
  have h4: "ok ?resp" by (simp add: ok_def)
  have h5: "read_data sample_parse ?resp = Inr (JArr [JNum 1])"
    by (simp add: read_data_def isJson_sample resp_json_def sample_parse_def)
  show ?thesis
    using h1 h2 h3 h4 h5 successful_fetch_writes_both_tiers
        [where upstream = upstream_json and cfg = default_config, OF h1 h2 h3 h4 h5]
    by (simp add: key_regions default_config_def)
qed

lemma read_data_text:
  "\<not> isJson resp \<Longrightarrow> resp_body resp = Some t \<Longrightarrow> read_data parse resp = Inr (JStr t)"
  by (simp add: read_data_def resp_text_def)

lemma read_data_json:
  "isJson resp \<Longrightarrow> resp_body resp = Some t \<Longrightarrow>
   read_data parse resp = (case parse t of None \<Rightarrow> Inl SyntaxError | Some j \<Rightarrow> Inr j)"
  by (simp add: read_data_def resp_json_def)

text \<open>
  Claim C7. For a 2xx answer whose body text is \<open>t\<close>: when the content type does not
  contain \<^verbatim>\<open>application/json\<close> (the code's test for a declared JSON body), the data is the
  text itself, and the value returned and the value cached in both tiers is
  \<^verbatim>\<open>{ raw: t }\<close>; when it does, the data is what \<^verbatim>\<open>JSON.parse\<close> makes of \<open>t\<close>: the
  parsed value, normalized, is returned and cached, and a text that does not parse ends in
  the 504 of the handler's catch block.
\<close>

theorem body_normalisation:
  assumes "isSafeResource (resource req)"
    and "if_truthy (cache_get c now (key_of req)) = None"
    and "upstream (target_of cfg req) = (Fulfilled resp, dt)"
    and "ok resp"
    and "resp_body resp = Some t"
  shows "if isJson resp then
           read_data parse resp = (case parse t of None \<Rightarrow> Inl SyntaxError | Some j \<Rightarrow> Inr j) \<and>
           (case parse t of
              None \<Rightarrow> res_status (sent (handler cfg parse upstream c now req)) = 504
            | Some j \<Rightarrow>
                body (sent (handler cfg parse upstream c now req)) = normalized j \<and>
                map_option e_value (store (handler cfg parse upstream c now req) (key_of req)) =
                  Some (normalized j))
         else
           read_data parse resp = Inr (JStr t) \<and>
           body (sent (handler cfg parse upstream c now req)) = JObj [(''raw'', JStr t)] \<and>
           map_option e_value (store (handler cfg parse upstream c now req) (key_of req)) =
             Some (JObj [(''raw'', JStr t)]) \<and>
           map_option e_value
               (store (handler cfg parse upstream c now req) (key_of req @ '':stale'')) =
             Some (JObj [(''raw'', JStr t)])"
proof (cases "isJson resp")
  case False
  have rd: "read_data parse resp = Inr (JStr t)"
    using False assms(5) by (rule read_data_text)
  have j: "fst (job parse (Fulfilled resp)) =
      Inr \<lparr>error = False, status = resp_status resp, data = normalized (JStr t)\<rparr>"
    using job_success [OF assms(4) rd] by simp
  show ?thesis
    unfolding handler_miss [where upstream = upstream and parse = parse, OF assms(1,2,3)] j
    using False rd by (simp add: after_job_success)
next
  case True
  have rd: "read_data parse resp = (case parse t of None \<Rightarrow> Inl SyntaxError | Some j \<Rightarrow> Inr j)"
    using True assms(5) by (rule read_data_json)
  show ?thesis
  proof (cases "parse t")
    case None
    with rd have "read_data parse resp = Inl SyntaxError" by simp
    then have j: "fst (job parse (Fulfilled resp)) = Inl SyntaxError"
      using job_throws [OF assms(4)] by simp
    show ?thesis
      unfolding handler_miss [where upstream = upstream and parse = parse, OF assms(1,2,3)] j
      using True rd None by (simp add: after_job_thrown)
  next
    case (Some v)
    with rd have "read_data parse resp = Inr v" by simp
    then have j: "fst (job parse (Fulfilled resp)) =
        Inr \<lparr>error = False, status = resp_status resp, data = normalized v\<rparr>"
      using job_success [OF assms(4)] by simp
    show ?thesis
      unfolding handler_miss [where upstream = upstream and parse = parse, OF assms(1,2,3)] j
      using True rd Some by (simp add: after_job_success)
  qed
qed

text \<open>A \<^verbatim>\<open>text/plain\<close> answer \<^verbatim>\<open>hello\<close> is returned and cached as \<^verbatim>\<open>{ raw: "hello" }\<close>.\<close>

theorem body_normalisation_witness:
  "isSafeResource (resource regions_request) \<and>
   if_truthy (cache_get Map.empty 1000 (key_of regions_request)) = None \<and>
   upstream_text (target_of default_config regions_request) =
     (Fulfilled \<lparr>resp_status = 200, content_type = Some ''text/plain'',
                 resp_body = Some ''hello''\<rparr>, 120) \<and>
   ok \<lparr>resp_status = 200, content_type = Some ''text/plain'', resp_body = Some ''hello''\<rparr> \<and>
   resp_body \<lparr>resp_status = 200, content_type = Some ''text/plain'', resp_body = Some ''hello''\<rparr>
     = Some ''hello'' \<and>
   \<not> isJson \<lparr>resp_status = 200, content_type = Some ''text/plain'', resp_body = Some ''hello''\<rparr> \<and>
   body (sent (handler default_config sample_parse upstream_text Map.empty 1000 regions_request)) =
     JObj [(''raw'', JStr ''hello'')] \<and>
   map_option e_value
     (store (handler default_config sample_parse upstream_text Map.empty 1000 regions_request)
        ''traffic:findRegionsAll:'') = Some (JObj [(''raw'', JStr ''hello'')]) \<and>
   map_option e_value
     (store (handler default_config sample_parse upstream_text Map.empty 1000 regions_request)
        ''traffic:findRegionsAll::stale'') = Some (JObj [(''raw'', JStr ''hello'')])"
proof -
  let ?resp = "\<lparr>resp_status = 200, content_type = Some ''text/plain'', resp_body = Some ''hello''\<rparr>"
  have h1: "isSafeResource (resource regions_request)" by (rule safe_regions)
  have h2: "if_truthy (cache_get Map.empty 1000 (key_of regions_request)) = None"
    by (rule empty_cache_miss)
  have h3: "upstream_text (target_of default_config regions_request) = (Fulfilled ?resp, 120)"
    by (simp add: upstream_text_def)
  have h4: "ok ?resp" by (simp add: ok_def)
  have h5: "resp_body ?resp = Some ''hello''" by simp
  have h6: "\<not> isJson ?resp" by (rule isJson_sample)
  show ?thesis
    using h1 h2 h3 h4 h5 h6
      body_normalisation [where upstream = upstream_text and cfg = default_config
        and parse = sample_parse, OF h1 h2 h3 h4 h5]
    by (simp add: key_regions)
qed

text \<open>
  Claim C8. For an upstream answer with a status outside 200..299 whose body is read as
  the text \<open>t\<close>, the job's result is the error result carrying that status and \<open>t\<close>
  unparsed. And the handler never fetches more than once for a request, whatever the
  configuration, upstream, store, time and request: there is no retry.
\<close>

theorem upstream_error_outcome:
  assumes "\<not> ok resp" and "resp_body resp = Some t"
  shows "job parse (Fulfilled resp) =
           (Inr \<lparr>error = True, status = resp_status resp, data = JStr t\<rparr>, Cleared) \<and>
         (\<forall>cfg upstream c now req.
            length (calls (handler cfg parse upstream c now req)) \<le> 1)"
proof (intro conjI allI)
  show "job parse (Fulfilled resp) =
      (Inr \<lparr>error = True, status = resp_status resp, data = JStr t\<rparr>, Cleared)"
    using assms by (rule job_upstream_error)
next
  fix cfg upstream c now req
  show "length (calls (handler cfg parse upstream c now req)) \<le> 1"
    by (rule calls_at_most_one)
qed

text \<open>A 500 with the body \<^verbatim>\<open>oops\<close>.\<close>

theorem upstream_error_outcome_witness:
  "\<not> ok \<lparr>resp_status = 500, content_type = Some ''text/html'', resp_body = Some ''oops''\<rparr> \<and>
   resp_body \<lparr>resp_status = 500, content_type = Some ''text/html'', resp_body = Some ''oops''\<rparr>
     = Some ''oops'' \<and>
   job sample_parse
     (Fulfilled \<lparr>resp_status = 500, content_type = Some ''text/html'', resp_body = Some ''oops''\<rparr>) =
     (Inr \<lparr>error = True, status = 500, data = JStr ''oops''\<rparr>, Cleared) \<and>
   length (calls (handler default_config sample_parse upstream_500 Map.empty 1000 regions_request))
     \<le> 1"
proof -
  let ?resp = "\<lparr>resp_status = 500, content_type = Some ''text/html'', resp_body = Some ''oops''\<rparr>"
  have h1: "\<not> ok ?resp" by (simp add: ok_def)
  have h2: "resp_body ?resp = Some ''oops''" by simp
  show ?thesis
    using h1 h2 upstream_error_outcome [OF h1 h2, of sample_parse]
    by simp
qed

section \<open>The stale response\<close>

lemma set_prop_absent: "k \<notin> fst ` set ps \<Longrightarrow> set_prop k v ps = ps @ [(k, v)]"
  by (induction ps) auto

lemma set_prop_keys: "k \<in> fst ` set ps \<Longrightarrow> map fst (set_prop k v ps) = map fst ps"
  by (induction ps) (auto simp: set_prop_absent)

lemma set_prop_lookup: "map_of (set_prop k v ps) k = Some v"
  by (induction ps) auto

lemma set_prop_other: "k' \<noteq> k \<Longrightarrow> map_of (set_prop k v ps) k' = map_of ps k'"
  by (induction ps) auto

lemma after_job_stale_only_if:
  assumes "x_cache (fst (after_job cfg c t key r)) = Some ''STALE''"
  shows "\<exists>s. cache_get c t (key @ '':stale'') = Some s \<and> truthy s \<and>
             fst (after_job cfg c t key r) =
               \<lparr>res_status = 200, x_cache = Some ''STALE'', body = stale_body s\<rparr>"
proof (cases r)
  case (Inl e)
  with assms show ?thesis by (simp add: after_job_def)
next
  case (Inr res)
  show ?thesis
  proof (cases "error res")
    case False
    with Inr assms show ?thesis by (simp add: after_job_def)
  next
    case True
    show ?thesis
    proof (cases "cache_get c t (key @ '':stale'')")
      case None
      with True Inr assms show ?thesis by (simp add: after_job_def if_truthy_def)
    next
      case (Some s)
      with True Inr assms show ?thesis
        by (cases "truthy s") (simp_all add: after_job_def if_truthy_def)
    qed
  qed
qed

lemma handler_stale_only_if:
  assumes "x_cache (sent (handler cfg parse upstream c now req)) = Some ''STALE''"
  shows "\<exists>s. cache_get c (now + snd (upstream (target_of cfg req))) (key_of req @ '':stale'') = Some s \<and>
             truthy s \<and>
             sent (handler cfg parse upstream c now req) =
               \<lparr>res_status = 200, x_cache = Some ''STALE'', body = stale_body s\<rparr>"
proof -
  have safe: "isSafeResource (resource req)"
    using assms by (auto simp: handler_def split: if_splits)
  have miss: "if_truthy (cache_get c now (key_of req)) = None"
    using assms safe by (auto simp: handler_def split: option.splits)
  obtain s dt where up: "upstream (target_of cfg req) = (s, dt)"
    by (cases "upstream (target_of cfg req)")
  have h: "sent (handler cfg parse upstream c now req) =
      fst (after_job cfg c (now + dt) (key_of req) (fst (job parse s)))"
    using handler_miss [where upstream = upstream and parse = parse, OF safe miss up] by simp
  with assms have "x_cache (fst (after_job cfg c (now + dt) (key_of req) (fst (job parse s)))) =
      Some ''STALE''" by simp
  from after_job_stale_only_if [OF this] h up show ?thesis by simp
qed

text \<open>
  Claim C10. Whenever the handler answers with \<^verbatim>\<open>X-Cache: STALE\<close>, the stale tier held a
  truthy value for the key at the time the job settled, and the body is the spread of that
  value with the property \<^verbatim>\<open>meta\<close> set to the object
  \<^verbatim>\<open>{warning: "Upstream error, served stale cache"}\<close>. For an object without a
  \<^verbatim>\<open>meta\<close> field the body is its fields, unchanged and in order, followed by that
  \<^verbatim>\<open>meta\<close>. For an object with a \<^verbatim>\<open>meta\<close> field the body has the same keys,
  \<^verbatim>\<open>meta\<close> is the warning object, and every other key has the value it had. A value
  that is not an object is not what the body is.
\<close>

theorem stale_response_shape:
  assumes "x_cache (sent (handler cfg parse upstream c now req)) = Some ''STALE''"
  shows "\<exists>stale.
           cache_get c (now + snd (upstream (target_of cfg req))) (key_of req @ '':stale'') =
             Some stale \<and>
           truthy stale \<and>
           body (sent (handler cfg parse upstream c now req)) =
             JObj (set_prop ''meta''
               (JObj [(''warning'', JStr ''Upstream error, served stale cache'')])
               (spread stale)) \<and>
           (case stale of
              JObj fs \<Rightarrow>
                if ''meta'' \<in> fst ` set fs then
                  \<exists>fs'. body (sent (handler cfg parse upstream c now req)) = JObj fs' \<and>
                    map fst fs' = map fst fs \<and>
                    map_of fs' ''meta'' =
                      Some (JObj [(''warning'', JStr ''Upstream error, served stale cache'')]) \<and>
                    (\<forall>k. k \<noteq> ''meta'' \<longrightarrow> map_of fs' k = map_of fs k)
                else
                  body (sent (handler cfg parse upstream c now req)) =
                    JObj (fs @
                      [(''meta'',
                        JObj [(''warning'', JStr ''Upstream error, served stale cache'')])])
            | _ \<Rightarrow> body (sent (handler cfg parse upstream c now req)) \<noteq> stale)"
proof -
  from handler_stale_only_if [OF assms] obtain s where
    s: "cache_get c (now + snd (upstream (target_of cfg req))) (key_of req @ '':stale'') = Some s"
      "truthy s"
    and b: "body (sent (handler cfg parse upstream c now req)) = stale_body s"
    by auto
  have shape: "(case s of
              JObj fs \<Rightarrow>
                if ''meta'' \<in> fst ` set fs then
                  \<exists>fs'. stale_body s = JObj fs' \<and>
                    map fst fs' = map fst fs \<and>
                    map_of fs' ''meta'' =
                      Some (JObj [(''warning'', JStr ''Upstream error, served stale cache'')]) \<and>
                    (\<forall>k. k \<noteq> ''meta'' \<longrightarrow> map_of fs' k = map_of fs k)
                else stale_body s = JObj (fs @
                      [(''meta'',
                        JObj [(''warning'', JStr ''Upstream error, served stale cache'')])])
            | _ \<Rightarrow> stale_body s \<noteq> s)"
  proof (cases s)
    case (JObj fs)
    then show ?thesis
      by (simp add: stale_body_def set_prop_absent set_prop_keys set_prop_lookup set_prop_other)
  qed (simp_all add: stale_body_def)
  have "stale_body s = JObj (set_prop ''meta''
               (JObj [(''warning'', JStr ''Upstream error, served stale cache'')])
               (spread s))"
    by (simp add: stale_body_def)
  with s shape show ?thesis
    unfolding b by (intro exI [of _ s] conjI)
qed

lemma stale_only_fresh_miss: "if_truthy (cache_get stale_only now (key_of regions_request)) = None"
  by (simp add: key_regions stale_only_def cache_get_def if_truthy_def)

lemma stale_only_lookup:
  "now < 300000 \<Longrightarrow>
   cache_get stale_only now (key_of regions_request @ '':stale'') = Some (JObj [(''foo'', JNum 1)])"
  by (simp add: key_regions stale_only_def cache_get_def)

lemma sent_500_stale:
  "sent (handler default_config sample_parse upstream_500 stale_only 100000 regions_request) =
     \<lparr>res_status = 200, x_cache = Some ''STALE'',
      body = JObj [(''foo'', JNum 1),
        (''meta'', JObj [(''warning'', JStr ''Upstream error, served stale cache'')])]\<rparr>"
proof -
  let ?resp = "\<lparr>resp_status = 500, content_type = Some ''text/html'', resp_body = Some ''oops''\<rparr>"
  have up: "upstream_500 (target_of default_config regions_request) = (Fulfilled ?resp, 120)"
    by (simp add: upstream_500_def)
  have j: "fst (job sample_parse (Fulfilled ?resp)) =
      Inr \<lparr>error = True, status = 500, data = JStr ''oops''\<rparr>"
    by (simp add: job_upstream_error ok_def)
  have aj: "after_job default_config stale_only 100120 (key_of regions_request)
        (Inr \<lparr>error = True, status = 500, data = JStr ''oops''\<rparr>) =
      (\<lparr>res_status = 200, x_cache = Some ''STALE'',
        body = stale_body (JObj [(''foo'', JNum 1)])\<rparr>, stale_only)"
    by (rule after_job_stale) (simp_all add: stale_only_lookup)
  show ?thesis
    unfolding handler_miss [where upstream = upstream_500 and parse = sample_parse,
        OF safe_regions stale_only_fresh_miss up] j
    by (simp add: aj stale_body_def)
qed

text \<open>The stale value \<^verbatim>\<open>{foo: 1}\<close> served after a 500.\<close>

theorem stale_response_shape_witness:
  "x_cache (sent (handler default_config sample_parse upstream_500 stale_only 100000
      regions_request)) = Some ''STALE'' \<and>
   (\<exists>stale.
      cache_get stale_only (100000 + snd (upstream_500 (target_of default_config regions_request)))
        (key_of regions_request @ '':stale'') = Some stale \<and>
      truthy stale \<and>
      body (sent (handler default_config sample_parse upstream_500 stale_only 100000
        regions_request)) = JObj (set_prop ''meta''
               (JObj [(''warning'', JStr ''Upstream error, served stale cache'')])
               (spread stale))) \<and>
   body (sent (handler default_config sample_parse upstream_500 stale_only 100000
      regions_request)) =
     JObj [(''foo'', JNum 1),
       (''meta'', JObj [(''warning'', JStr ''Upstream error, served stale cache'')])]"
proof -
  have h: "x_cache (sent (handler default_config sample_parse upstream_500 stale_only 100000
      regions_request)) = Some ''STALE''"
    by (simp add: sent_500_stale)
  from stale_response_shape [OF h] obtain stale where
    "cache_get stale_only (100000 + snd (upstream_500 (target_of default_config regions_request)))
        (key_of regions_request @ '':stale'') = Some stale"
    "truthy stale"
    "body (sent (handler default_config sample_parse upstream_500 stale_only 100000
        regions_request)) = JObj (set_prop ''meta''
               (JObj [(''warning'', JStr ''Upstream error, served stale cache'')])
               (spread stale))"
    by blast
  then show ?thesis using h by (auto simp: sent_500_stale)
qed

section \<open>Failures of the fetch\<close>

text \<open>
  Claim C1, as amended. For a whitelisted request that misses the fresh tier:
  when the upstream answers with a status outside 200..299 and its body is read as text,
  the handler looks up the stale tier under the same key; a stale entry with a truthy
  value is answered with 200, \<^verbatim>\<open>X-Cache: STALE\<close> and that value with the field
  \<^verbatim>\<open>meta: {warning: "Upstream error, served stale cache"}\<close> added, and with no stale
  entry the answer has the upstream's status (502 if that is 0) and the body
  \<^verbatim>\<open>{error: "Upstream error", detail: <text>}\<close>. When the fetch itself is rejected (the
  timeout's abort, or a transport failure) and there is no stale entry, the answer is 504
  with the error \<^verbatim>\<open>Upstream timeout\<close> for the abort and \<^verbatim>\<open>Proxy error\<close> otherwise.
\<close>

theorem failure_fallback:
  assumes "isSafeResource (resource req)"
    and "if_truthy (cache_get c now (key_of req)) = None"
  shows
    "(\<forall>resp dt t s.
        upstream (target_of cfg req) = (Fulfilled resp, dt) \<and> \<not> ok resp \<and>
        resp_body resp = Some t \<and>
        cache_get c (now + dt) (key_of req @ '':stale'') = Some s \<and> truthy s \<longrightarrow>
        sent (handler cfg parse upstream c now req) =
          \<lparr>res_status = 200, x_cache = Some ''STALE'',
           body = JObj (set_prop ''meta''
               (JObj [(''warning'', JStr ''Upstream error, served stale cache'')])
               (spread s))\<rparr>) \<and>
     (\<forall>resp dt t.
        upstream (target_of cfg req) = (Fulfilled resp, dt) \<and> \<not> ok resp \<and>
        resp_body resp = Some t \<and>
        cache_get c (now + dt) (key_of req @ '':stale'') = None \<longrightarrow>
        sent (handler cfg parse upstream c now req) =
          \<lparr>res_status = (if resp_status resp = 0 then 502 else resp_status resp),
           x_cache = None,
           body = JObj [(''error'', JStr ''Upstream error''), (''detail'', JStr t)]\<rparr>) \<and>
     (\<forall>e dt.
        upstream (target_of cfg req) = (Rejected e, dt) \<and>
        cache_get c (now + dt) (key_of req @ '':stale'') = None \<longrightarrow>
        sent (handler cfg parse upstream c now req) =
          \<lparr>res_status = 504, x_cache = None,
           body = JObj [(''error'',
             JStr (if e = AbortError then ''Upstream timeout'' else ''Proxy error''))]\<rparr>)"
proof (intro conjI allI impI)
  fix resp dt t s
  assume a: "upstream (target_of cfg req) = (Fulfilled resp, dt) \<and> \<not> ok resp \<and>
        resp_body resp = Some t \<and>
        cache_get c (now + dt) (key_of req @ '':stale'') = Some s \<and> truthy s"
  then have up: "upstream (target_of cfg req) = (Fulfilled resp, dt)" by simp
  have j: "fst (job parse (Fulfilled resp)) =
      Inr \<lparr>error = True, status = resp_status resp, data = JStr t\<rparr>"
    using a by (simp add: job_upstream_error)
  show "sent (handler cfg parse upstream c now req) =
          \<lparr>res_status = 200, x_cache = Some ''STALE'',
           body = JObj (set_prop ''meta''
               (JObj [(''warning'', JStr ''Upstream error, served stale cache'')])
               (spread s))\<rparr>"
    unfolding handler_miss [where upstream = upstream and parse = parse, OF assms up] j
    using a by (simp add: after_job_stale stale_body_def)
next
  fix resp dt t
  assume a: "upstream (target_of cfg req) = (Fulfilled resp, dt) \<and> \<not> ok resp \<and>
        resp_body resp = Some t \<and>
        cache_get c (now + dt) (key_of req @ '':stale'') = None"
  then have up: "upstream (target_of cfg req) = (Fulfilled resp, dt)" by simp
  have j: "fst (job parse (Fulfilled resp)) =
      Inr \<lparr>error = True, status = resp_status resp, data = JStr t\<rparr>"
    using a by (simp add: job_upstream_error)
  show "sent (handler cfg parse upstream c now req) =
          \<lparr>res_status = (if resp_status resp = 0 then 502 else resp_status resp),
           x_cache = None,
           body = JObj [(''error'', JStr ''Upstream error''), (''detail'', JStr t)]\<rparr>"
    unfolding handler_miss [where upstream = upstream and parse = parse, OF assms up] j
    using a by (simp add: after_job_no_stale)
next
  fix e dt
  assume a: "upstream (target_of cfg req) = (Rejected e, dt) \<and>
        cache_get c (now + dt) (key_of req @ '':stale'') = None"
  then have up: "upstream (target_of cfg req) = (Rejected e, dt)" by simp
  show "sent (handler cfg parse upstream c now req) =
          \<lparr>res_status = 504, x_cache = None,
           body = JObj [(''error'',
             JStr (if e = AbortError then ''Upstream timeout'' else ''Proxy error''))]\<rparr>"
    unfolding handler_miss [where upstream = upstream and parse = parse, OF assms up]
    by (simp add: job_rejected after_job_thrown)
qed

text \<open>
  The three cases at sample inputs: a 500 with a stale \<^verbatim>\<open>{foo: 1}\<close>, a 500 with an empty
  store, a timeout with an empty store.
\<close>

theorem failure_fallback_witness:
  "isSafeResource (resource regions_request) \<and>
   if_truthy (cache_get stale_only 100000 (key_of regions_request)) = None \<and>
   upstream_500 (target_of default_config regions_request) =
     (Fulfilled \<lparr>resp_status = 500, content_type = Some ''text/html'',
                 resp_body = Some ''oops''\<rparr>, 120) \<and>
   \<not> ok \<lparr>resp_status = 500, content_type = Some ''text/html'', resp_body = Some ''oops''\<rparr> \<and>
   cache_get stale_only (100000 + 120) (key_of regions_request @ '':stale'') =
     Some (JObj [(''foo'', JNum 1)]) \<and>
   truthy (JObj [(''foo'', JNum 1)]) \<and>
   sent (handler default_config sample_parse upstream_500 stale_only 100000 regions_request) =
     \<lparr>res_status = 200, x_cache = Some ''STALE'',
      body = JObj [(''foo'', JNum 1),
        (''meta'', JObj [(''warning'', JStr ''Upstream error, served stale cache'')])]\<rparr> \<and>
   if_truthy (cache_get Map.empty 1000 (key_of regions_request)) = None \<and>
   cache_get Map.empty (1000 + 120) (key_of regions_request @ '':stale'') = None \<and>
   sent (handler default_config sample_parse upstream_500 Map.empty 1000 regions_request) =
     \<lparr>res_status = 500, x_cache = None,
      body = JObj [(''error'', JStr ''Upstream error''), (''detail'', JStr ''oops'')]\<rparr> \<and>
   upstream_timeout (target_of default_config regions_request) = (Rejected AbortError, 8000) \<and>
   cache_get Map.empty (1000 + 8000) (key_of regions_request @ '':stale'') = None \<and>
   sent (handler default_config sample_parse upstream_timeout Map.empty 1000 regions_request) =
     \<lparr>res_status = 504, x_cache = None, body = JObj [(''error'', JStr ''Upstream timeout'')]\<rparr>"
proof -
  let ?resp = "\<lparr>resp_status = 500, content_type = Some ''text/html'', resp_body = Some ''oops''\<rparr>"
  have h1: "isSafeResource (resource regions_request)" by (rule safe_regions)
  have h2: "if_truthy (cache_get stale_only 100000 (key_of regions_request)) = None"
    by (rule stale_only_fresh_miss)
  have h3: "if_truthy (cache_get Map.empty 1000 (key_of regions_request)) = None"
    by (rule empty_cache_miss)
  have u5: "upstream_500 (target_of default_config regions_request) = (Fulfilled ?resp, 120)"
    by (simp add: upstream_500_def)
  have ut: "upstream_timeout (target_of default_config regions_request) = (Rejected AbortError, 8000)"
    by (simp add: upstream_timeout_def)
  have nok: "\<not> ok ?resp" by (simp add: ok_def)
  have st: "cache_get stale_only (100000 + 120) (key_of regions_request @ '':stale'') =
     Some (JObj [(''foo'', JNum 1)])"
    by (rule stale_only_lookup) simp
  have e1: "cache_get Map.empty (1000 + 120) (key_of regions_request @ '':stale'') = None"
    and e2: "cache_get Map.empty (1000 + 8000) (key_of regions_request @ '':stale'') = None"
    by (simp_all add: cache_get_def)
  note a = failure_fallback [where upstream = upstream_500 and cfg = default_config
      and parse = sample_parse, OF h1 h2]
  note b = failure_fallback [where upstream = upstream_500 and cfg = default_config
      and parse = sample_parse, OF h1 h3]
  note d = failure_fallback [where upstream = upstream_timeout and cfg = default_config
      and parse = sample_parse, OF h1 h3]
  have r1: "sent (handler default_config sample_parse upstream_500 stale_only 100000 regions_request) =
     \<lparr>res_status = 200, x_cache = Some ''STALE'',
      body = JObj [(''foo'', JNum 1),
        (''meta'', JObj [(''warning'', JStr ''Upstream error, served stale cache'')])]\<rparr>"
    using a [THEN conjunct1, rule_format, of ?resp 120 "''oops''" "JObj [(''foo'', JNum 1)]"]
      u5 nok st by simp
  have r2: "sent (handler default_config sample_parse upstream_500 Map.empty 1000 regions_request) =
     \<lparr>res_status = 500, x_cache = None,
      body = JObj [(''error'', JStr ''Upstream error''), (''detail'', JStr ''oops'')]\<rparr>"
    using b [THEN conjunct2, THEN conjunct1, rule_format, of ?resp 120 "''oops''"]
      u5 nok e1 by simp
  have r3: "sent (handler default_config sample_parse upstream_timeout Map.empty 1000 regions_request) =
     \<lparr>res_status = 504, x_cache = None, body = JObj [(''error'', JStr ''Upstream timeout'')]\<rparr>"
    using d [THEN conjunct2, THEN conjunct2, rule_format, of AbortError 8000]
      ut e2 by simp
  show ?thesis
    using h1 h2 h3 u5 ut nok st e1 e2 r1 r2 r3 by simp
qed

lemma null_store_reached:
  "store (handler default_config sample_parse upstream_null Map.empty 1000 regions_request) =
     null_store"
proof -
  let ?resp = "\<lparr>resp_status = 200, content_type = Some ''application/json'',
      resp_body = Some ''null''\<rparr>"
  have up: "upstream_null (target_of default_config regions_request) = (Fulfilled ?resp, 120)"
    by (simp add: upstream_null_def)
  have rd: "read_data sample_parse ?resp = Inr JNull"
    by (simp add: read_data_def isJson_sample resp_json_def sample_parse_def)
  have j: "fst (job sample_parse (Fulfilled ?resp)) =
      Inr \<lparr>error = False, status = 200, data = JNull\<rparr>"
    using job_success [OF _ rd] by (simp add: ok_def)
  show ?thesis
    unfolding handler_miss [where upstream = upstream_null and parse = sample_parse,
        OF safe_regions empty_cache_miss up] j
    by (simp add: after_job_success default_config_def null_store_def key_regions)
qed

lemma sent_500_null_store:
  "sent (handler default_config sample_parse upstream_500 null_store 100000 regions_request) =
     \<lparr>res_status = 500, x_cache = None,
      body = JObj [(''error'', JStr ''Upstream error''), (''detail'', JStr ''oops'')]\<rparr>"
proof -
  let ?resp = "\<lparr>resp_status = 500, content_type = Some ''text/html'', resp_body = Some ''oops''\<rparr>"
  have up: "upstream_500 (target_of default_config regions_request) = (Fulfilled ?resp, 120)"
    by (simp add: upstream_500_def)
  have miss: "if_truthy (cache_get null_store 100000 (key_of regions_request)) = None"
    by (simp add: key_regions null_store_def cache_get_def if_truthy_def)
  have j: "fst (job sample_parse (Fulfilled ?resp)) =
      Inr \<lparr>error = True, status = 500, data = JStr ''oops''\<rparr>"
    by (simp add: job_upstream_error ok_def)
  have st: "if_truthy (cache_get null_store 100120 (key_of regions_request @ '':stale'')) = None"
    by (simp add: key_regions null_store_def cache_get_def if_truthy_def)
  show ?thesis
    unfolding handler_miss [where upstream = upstream_500 and parse = sample_parse,
        OF safe_regions miss up] j
    by (simp add: after_job_def st)
qed

text \<open>
  Claim C1 as stated fails in three places. For a timeout with no stale entry the answer
  is 504 and \<^verbatim>\<open>Upstream timeout\<close>, not 502: the rejection is thrown out of
  \<^verbatim>\<open>await job\<close> into the catch block. For a timeout with a live stale entry the answer
  is the same 504: the catch block never looks at the stale tier. And for a 500 with a
  live stale entry whose value is \<^verbatim>\<open>null\<close>, the entry is found in the store but
  \<^verbatim>\<open>if (stale)\<close> takes it for absent, and the answer is the 500 with the error body, not
  200 with the stale value.
\<close>

theorem timeout_is_504_counterexample:
  "cache_get Map.empty 9000 (key_of regions_request @ '':stale'') = None \<and>
   sent (handler default_config sample_parse upstream_timeout Map.empty 1000 regions_request) =
     \<lparr>res_status = 504, x_cache = None, body = JObj [(''error'', JStr ''Upstream timeout'')]\<rparr> \<and>
   res_status (sent (handler default_config sample_parse upstream_timeout Map.empty 1000
     regions_request)) \<noteq> 502 \<and>
   cache_get stale_only 108000 (key_of regions_request @ '':stale'') =
     Some (JObj [(''foo'', JNum 1)]) \<and>
   sent (handler default_config sample_parse upstream_timeout stale_only 100000 regions_request) =
     \<lparr>res_status = 504, x_cache = None, body = JObj [(''error'', JStr ''Upstream timeout'')]\<rparr> \<and>
   cache_get null_store 100120 (key_of regions_request @ '':stale'') = Some JNull \<and>
   sent (handler default_config sample_parse upstream_500 null_store 100000 regions_request) =
     \<lparr>res_status = 500, x_cache = None,
      body = JObj [(''error'', JStr ''Upstream error''), (''detail'', JStr ''oops'')]\<rparr>"
proof -
  have ut: "upstream_timeout (target_of default_config regions_request) = (Rejected AbortError, 8000)"
    by (simp add: upstream_timeout_def)
  have r1: "sent (handler default_config sample_parse upstream_timeout Map.empty 1000 regions_request) =
     \<lparr>res_status = 504, x_cache = None, body = JObj [(''error'', JStr ''Upstream timeout'')]\<rparr>"
    unfolding handler_miss [where upstream = upstream_timeout and parse = sample_parse,
        OF safe_regions empty_cache_miss ut]
    by (simp add: job_rejected after_job_thrown)
  have r2: "sent (handler default_config sample_parse upstream_timeout stale_only 100000 regions_request) =
     \<lparr>res_status = 504, x_cache = None, body = JObj [(''error'', JStr ''Upstream timeout'')]\<rparr>"
    unfolding handler_miss [where upstream = upstream_timeout and parse = sample_parse,
        OF safe_regions stale_only_fresh_miss ut]
    by (simp add: job_rejected after_job_thrown)
  have r3: "cache_get null_store 100120 (key_of regions_request @ '':stale'') = Some JNull"
    by (simp add: key_regions null_store_def cache_get_def)
  show ?thesis
    by (simp add: r1 r2 r3 sent_500_null_store stale_only_lookup cache_get_def [of Map.empty])
qed

section \<open>Repeated requests and the timer\<close>

lemma repeat_after_miss_hits:
  assumes "isSafeResource (resource req)"
    and "if_truthy (cache_get c now (key_of req)) = None"
    and "upstream (target_of cfg req) = (Fulfilled resp, dt)"
    and "ok resp"
    and "read_data parse resp = Inr d"
    and "truthy (normalized d)"
    and "now' < now + dt + 1000 * CACHETTL cfg"
  shows "handler cfg parse upstream' (store (handler cfg parse upstream c now req)) now' req =
     \<lparr>sent = \<lparr>res_status = 200, x_cache = Some ''HIT'', body = normalized d\<rparr>,
      store = store (handler cfg parse upstream c now req), calls = [], timer = None\<rparr>"
proof -
  have j: "fst (job parse (Fulfilled resp)) =
      Inr \<lparr>error = False, status = resp_status resp, data = normalized d\<rparr>"
    using job_success [OF assms(4,5)] by simp
  have st: "store (handler cfg parse upstream c now req) (key_of req) =
      Some \<lparr>e_value = normalized d, e_inserted = now + dt, e_ttl = CACHETTL cfg\<rparr>"
    unfolding handler_miss [where upstream = upstream and parse = parse, OF assms(1,2,3)] j
    by (simp add: after_job_success)
  have "if_truthy (cache_get (store (handler cfg parse upstream c now req)) now' (key_of req)) =
      Some (normalized d)"
    using assms(6,7) by (simp add: cache_get_def st if_truthy_def)
  with assms(1) show ?thesis by (rule handler_hit)
qed

lemma timer_after_fetch:
  assumes "isSafeResource (resource req)"
    and "if_truthy (cache_get c now (key_of req)) = None"
    and "upstream (target_of cfg req) = (s, dt)"
  shows "timer (handler cfg parse upstream c now req) =
     Some (case s of
             Fulfilled resp \<Rightarrow> Cleared
           | Rejected e \<Rightarrow> if e = AbortError then Fired else Pending)"
  unfolding handler_miss [where upstream = upstream and parse = parse, OF assms]
  by (cases s) (simp_all add: job_def)

text \<open>
  Claim C3 at the upstream body \<^verbatim>\<open>null\<close> (declared JSON). The first request is a MISS that
  stores \<^verbatim>\<open>null\<close>; the store then returns \<^verbatim>\<open>null\<close> for the key, which \<^verbatim>\<open>if (cached)\<close>
  takes for absent, so the identical request that follows is a MISS again and fetches the
  upstream again. (For a truthy value the repeat is a HIT with the same value and no fetch:
  \<open>repeat_after_miss_hits\<close>.)
\<close>

theorem falsy_value_is_fetched_again:
  "sent (handler default_config sample_parse upstream_null Map.empty 1000 regions_request) =
     \<lparr>res_status = 200, x_cache = Some ''MISS'', body = JNull\<rparr> \<and>
   cache_get (store (handler default_config sample_parse upstream_null Map.empty 1000
       regions_request)) 1120 (key_of regions_request) = Some JNull \<and>
   sent (handler default_config sample_parse upstream_null
       (store (handler default_config sample_parse upstream_null Map.empty 1000 regions_request))
       1120 regions_request) =
     \<lparr>res_status = 200, x_cache = Some ''MISS'', body = JNull\<rparr> \<and>
   calls (handler default_config sample_parse upstream_null
       (store (handler default_config sample_parse upstream_null Map.empty 1000 regions_request))
       1120 regions_request) =
     [''https://trafficnz.info/service/traffic/rest/4/findRegionsAll'']"
proof -
  let ?resp = "\<lparr>resp_status = 200, content_type = Some ''application/json'',
      resp_body = Some ''null''\<rparr>"
  let ?st = "store (handler default_config sample_parse upstream_null Map.empty 1000
       regions_request)"
  have up: "upstream_null (target_of default_config regions_request) = (Fulfilled ?resp, 120)"
    by (simp add: upstream_null_def)
  have rd: "read_data sample_parse ?resp = Inr JNull"
    by (simp add: read_data_def isJson_sample resp_json_def sample_parse_def)
  have j: "fst (job sample_parse (Fulfilled ?resp)) =
      Inr \<lparr>error = False, status = 200, data = JNull\<rparr>"
    using job_success [OF _ rd] by (simp add: ok_def)
  have first: "handler default_config sample_parse upstream_null Map.empty 1000 regions_request =
      \<lparr>sent = \<lparr>res_status = 200, x_cache = Some ''MISS'', body = JNull\<rparr>,
       store = [key_of regions_request \<mapsto> \<lparr>e_value = JNull, e_inserted = 1120, e_ttl = 30\<rparr>,
                key_of regions_request @ '':stale'' \<mapsto>
                  \<lparr>e_value = JNull, e_inserted = 1120, e_ttl = 300\<rparr>],
       calls = [target_of default_config regions_request], timer = Some Cleared\<rparr>"
    unfolding handler_miss [where upstream = upstream_null and parse = sample_parse,
        OF safe_regions empty_cache_miss up] j
    by (simp add: after_job_success default_config_def job_def ok_def rd)
  have got: "cache_get ?st 1120 (key_of regions_request) = Some JNull"
    by (simp add: first cache_get_def)
  then have miss: "if_truthy (cache_get ?st 1120 (key_of regions_request)) = None"
    by (simp add: if_truthy_def)
  have second: "handler default_config sample_parse upstream_null ?st 1120 regions_request =
      \<lparr>sent = fst (after_job default_config ?st (1120 + 120) (key_of regions_request)
                 (Inr \<lparr>error = False, status = 200, data = JNull\<rparr>)),
       store = snd (after_job default_config ?st (1120 + 120) (key_of regions_request)
                 (Inr \<lparr>error = False, status = 200, data = JNull\<rparr>)),
       calls = [target_of default_config regions_request],
       timer = Some (snd (job sample_parse (Fulfilled ?resp)))\<rparr>"
    using handler_miss [where upstream = upstream_null and parse = sample_parse,
        OF safe_regions miss up] j by simp
  show ?thesis
    using got by (simp add: second after_job_success target_regions) (simp add: first)
qed

text \<open>
  Claim C6 at a transport failure. \<^verbatim>\<open>cancel()\<close> stands after \<^verbatim>\<open>await fetch(...)\<close>, so a
  rejected fetch skips it: the handler answers 504 and the timer is still pending.
  (\<open>timer_after_fetch\<close> gives the timer on every path.)
\<close>

theorem transport_failure_leaves_timer_pending:
  "timer (handler default_config sample_parse upstream_refused Map.empty 1000 regions_request) =
     Some Pending \<and>
   sent (handler default_config sample_parse upstream_refused Map.empty 1000 regions_request) =
     \<lparr>res_status = 504, x_cache = None, body = JObj [(''error'', JStr ''Proxy error'')]\<rparr>"
proof -
  have up: "upstream_refused (target_of default_config regions_request) = (Rejected TypeError, 15)"
    by (simp add: upstream_refused_def)
  show ?thesis
    unfolding handler_miss [where upstream = upstream_refused and parse = sample_parse,
        OF safe_regions empty_cache_miss up]
    by (simp add: job_rejected after_job_thrown)
qed

end
